theory Spec2Isabelle
  imports Complex_Main "HOL-Library.Sublist" "HOL-Library.Log_Nat" "HOL-Library.Multiset"
begin

section \<open>The record table of the user-management dashboard\<close>

text \<open>
  A shallow embedding of \<^verbatim>\<open>src/components/Table.tsx\<close> and \<^verbatim>\<open>src/types.ts\<close>:
  the record store, the filter, sort and pagination stages that are recomputed on every
  render, the event handlers, and the aggregate statistics.

  JavaScript values are modelled as follows.
  \<^item> A string is a \<open>string\<close>, each character one code unit below 256 (Latin-1);
    strings with other code units are outside the model. On these strings
    \<^verbatim>\<open>toLowerCase\<close> and the white space that \<^verbatim>\<open>parseInt\<close> skips are as in
    the language.
  \<^item> A number that is an integer or \<open>NaN\<close> (a time value, the result of
    \<open>parseInt\<close>, a comparator's result) is an \<open>int option\<close>, \<open>None\<close> being
    \<open>NaN\<close>. All such numbers of the table stay far below \<open>2^53\<close> in the range
    where a \<open>Date\<close> is valid, so their arithmetic is exact. The quotients of the
    statistics are not integers; they are modelled with the rounding of double
    precision.
  \<^item> A \<open>Date\<close> is its time value (milliseconds since the epoch, UTC); \<open>None\<close>
    is the Invalid Date. The local time zone is a parameter \<open>tza\<close>: the offset of local
    time from UTC in milliseconds, taken as constant (no daylight saving change).
\<close>

subsection \<open>Data model (types.ts)\<close>

text \<open>
  \<^verbatim>\<open>export type Status = "ACTIVE" | "INVITED" | "BLOCKED"\<close>. The table component also
  uses the literal \<^verbatim>\<open>"INACTIVE"\<close> as a status (filter option, statistics, badge, the
  third row button), so the values that occur at run time are these four.
\<close>

datatype Status = ACTIVE | INVITED | BLOCKED | INACTIVE

fun Status_str :: "Status \<Rightarrow> string" where
  "Status_str ACTIVE = ''ACTIVE''"
| "Status_str INVITED = ''INVITED''"
| "Status_str BLOCKED = ''BLOCKED''"
| "Status_str INACTIVE = ''INACTIVE''"

record About =
  name :: string
  status :: Status
  email :: string

record Details =
  date :: string
  invitedBy :: string

record Record =
  rec_id :: string
  about :: About
  details :: Details

text \<open>The status filter of the component state: \<^verbatim>\<open>Status | "ALL"\<close>.\<close>

datatype StatusFilter = FilterAll | FilterOnly Status

datatype SortField = SortName | SortEmail | SortDate | SortInvitedBy | SortStatus

datatype SortDirection = Asc | Desc

subsection \<open>Strings: toLowerCase, includes, split, parseInt\<close>

type_synonym number = "int option"

text \<open>
  The lower-case mapping of a code unit below 256: the letters A to Z, and the letters
  from U+00C0 to U+00DE except the multiplication sign U+00D7, move up by 32.
\<close>

definition toLowerCase_char :: "char \<Rightarrow> char" where
  "toLowerCase_char c =
     (let n = (of_char c :: nat)
      in if (65 \<le> n \<and> n \<le> 90) \<or> (192 \<le> n \<and> n \<le> 222 \<and> n \<noteq> 215)
         then char_of (n + 32) else c)"

definition toLowerCase :: "string \<Rightarrow> string" where
  "toLowerCase s = map toLowerCase_char s"

text \<open>\<^verbatim>\<open>s.includes(sub)\<close>: \<open>sub\<close> occurs in \<open>s\<close> as a contiguous run.\<close>

fun includes_str :: "string \<Rightarrow> string \<Rightarrow> bool" where
  "includes_str [] sub = (sub = [])"
| "includes_str (c # cs) sub = (prefix sub (c # cs) \<or> includes_str cs sub)"

text \<open>\<^verbatim>\<open>s.split(" ")\<close>: the parts between single spaces; never an empty array.\<close>

fun split_space :: "string \<Rightarrow> string list" where
  "split_space [] = [[]]"
| "split_space (c # cs) =
     (if c = CHR '' '' then [] # split_space cs
      else (case split_space cs of [] \<Rightarrow> [[c]] | p # ps \<Rightarrow> (c # p) # ps))"

text \<open>\<^verbatim>\<open>parts[i]\<close>: \<open>None\<close> is \<open>undefined\<close>.\<close>

fun index :: "'a list \<Rightarrow> nat \<Rightarrow> 'a option" where
  "index [] i = None"
| "index (x # xs) 0 = Some x"
| "index (x # xs) (Suc i) = index xs i"

text \<open>
  The white space and line terminators below 256: tab, line feed, vertical tab, form
  feed, carriage return, space and the no-break space U+00A0.
\<close>

definition isWhiteSpace :: "char \<Rightarrow> bool" where
  "isWhiteSpace c =
     (let n = (of_char c :: nat) in (9 \<le> n \<and> n \<le> 13) \<or> n = 32 \<or> n = 160)"

definition digitValue :: "char \<Rightarrow> nat option" where
  "digitValue c =
     (let n = (of_char c :: nat) in
      if 48 \<le> n \<and> n \<le> 57 then Some (n - 48)
      else if 97 \<le> n \<and> n \<le> 122 then Some (n - 87)
      else if 65 \<le> n \<and> n \<le> 90 then Some (n - 55)
      else None)"

definition isRadixDigit :: "nat \<Rightarrow> char \<Rightarrow> bool" where
  "isRadixDigit R c = (case digitValue c of None \<Rightarrow> False | Some d \<Rightarrow> d < R)"

fun digitsValue :: "nat \<Rightarrow> int \<Rightarrow> string \<Rightarrow> int" where
  "digitsValue R acc [] = acc"
| "digitsValue R acc (c # cs) =
     digitsValue R (acc * int R + int (case digitValue c of None \<Rightarrow> 0 | Some d \<Rightarrow> d)) cs"

text \<open>
  \<^verbatim>\<open>parseInt(s)\<close> with no radix: leading white space is skipped, a sign is read, a
  prefix \<^verbatim>\<open>0x\<close> or \<^verbatim>\<open>0X\<close> selects radix 16, and the longest run of digits is the
  value; with no digit the result is \<open>NaN\<close>. \<^verbatim>\<open>parseInt(undefined)\<close> reads the string
  \<^verbatim>\<open>"undefined"\<close> and is \<open>NaN\<close>.
\<close>

definition parseInt_str :: "string \<Rightarrow> number" where
  "parseInt_str s =
     (let s1 = dropWhile isWhiteSpace s;
          neg = (s1 \<noteq> [] \<and> hd s1 = CHR ''-'');
          s2 = (if s1 \<noteq> [] \<and> (hd s1 = CHR ''+'' \<or> hd s1 = CHR ''-'') then tl s1 else s1);
          hex = (prefix ''0x'' s2 \<or> prefix ''0X'' s2);
          R = (if hex then 16 else 10);
          s3 = (if hex then drop 2 s2 else s2);
          Z = takeWhile (isRadixDigit R) s3
      in if Z = [] then None
         else Some ((if neg then - 1 else 1) * digitsValue R 0 Z))"

definition parseInt :: "string option \<Rightarrow> number" where
  "parseInt v = (case v of None \<Rightarrow> None | Some s \<Rightarrow> parseInt_str s)"

subsection \<open>Dates\<close>

definition msPerDay :: int where
  "msPerDay = 86400000"

definition DayFromYear :: "int \<Rightarrow> int" where
  "DayFromYear y =
     365 * (y - 1970) + (y - 1969) div 4 - (y - 1901) div 100 + (y - 1601) div 400"

definition InLeapYear :: "int \<Rightarrow> bool" where
  "InLeapYear y = (y mod 4 = 0 \<and> (y mod 100 \<noteq> 0 \<or> y mod 400 = 0))"

text \<open>Days of the year before month \<open>m\<close> (0 is January) in a common year.\<close>

definition daysBeforeMonth :: "int \<Rightarrow> int" where
  "daysBeforeMonth m =
     (if m \<le> 0 then 0 else if m = 1 then 31 else if m = 2 then 59 else if m = 3 then 90
      else if m = 4 then 120 else if m = 5 then 151 else if m = 6 then 181
      else if m = 7 then 212 else if m = 8 then 243 else if m = 9 then 273
      else if m = 10 then 304 else 334)"

definition DaysInMonth :: "int \<Rightarrow> int \<Rightarrow> int" where
  "DaysInMonth y m =
     (if m = 1 then (if InLeapYear y then 29 else 28)
      else if m = 3 \<or> m = 5 \<or> m = 8 \<or> m = 10 then 30 else 31)"

text \<open>
  \<open>MakeDay year month date\<close> of ECMAScript: the day number of the given day, months
  counted from 0 and carried into the year, days counted on from the first of the month.
  It is \<open>NaN\<close> when the year or the month is out of the range the engine supports;
  the bounds are those of V8, a million years and ten million months either way.
\<close>

definition dayNumber :: "int \<Rightarrow> int \<Rightarrow> int \<Rightarrow> int" where
  "dayNumber year month dt =
     (let ym = year + month div 12; mn = month mod 12
      in DayFromYear ym + daysBeforeMonth mn
         + (if InLeapYear ym \<and> 2 \<le> mn then 1 else 0) + dt - 1)"

definition MakeDay :: "int \<Rightarrow> int \<Rightarrow> int \<Rightarrow> number" where
  "MakeDay year month dt =
     (if \<bar>year\<bar> \<le> 1000000 \<and> \<bar>month\<bar> \<le> 10000000
      then Some (dayNumber year month dt) else None)"


definition TimeClip :: "int \<Rightarrow> number" where
  "TimeClip t = (if \<bar>t\<bar> > 8640000000000000 then None else Some t)"

text \<open>
  The time value of midnight of a day number in a zone with offset \<open>tza\<close>:
  \<open>MakeDate day 0\<close>, the change from local time to UTC, and \<open>TimeClip\<close>.
\<close>

definition midnight :: "int \<Rightarrow> number \<Rightarrow> number" where
  "midnight tza day = (case day of None \<Rightarrow> None | Some d \<Rightarrow> TimeClip (d * msPerDay - tza))"

text \<open>
  \<^verbatim>\<open>new Date(year, month, day)\<close>: local midnight of that day. An argument that is
  \<open>NaN\<close> or \<open>undefined\<close> gives the Invalid Date; a year from 0 to 99 means 1900 + year.
\<close>

definition Date_ymd :: "int \<Rightarrow> number \<Rightarrow> number \<Rightarrow> number \<Rightarrow> number" where
  "Date_ymd tza year month day =
     (case year of None \<Rightarrow> None | Some y \<Rightarrow>
      (case month of None \<Rightarrow> None | Some m \<Rightarrow>
       (case day of None \<Rightarrow> None | Some dt \<Rightarrow>
          (let yr = (if 0 \<le> y \<and> y \<le> 99 then 1900 + y else y)
           in midnight tza (MakeDay yr m dt)))))"

text \<open>
  \<^verbatim>\<open>d.setHours(h, m, s, ms)\<close>: the same local day at the given local time. The Invalid
  Date stays invalid.
\<close>

definition setHours :: "int \<Rightarrow> int \<Rightarrow> int \<Rightarrow> int \<Rightarrow> int \<Rightarrow> number \<Rightarrow> number" where
  "setHours tza h m s ms d =
     (case d of None \<Rightarrow> None | Some t \<Rightarrow>
        (let localDay = (t + tza) div msPerDay
         in TimeClip (localDay * msPerDay + (h * 3600000 + m * 60000 + s * 1000 + ms) - tza)))"

definition decimal :: "string \<Rightarrow> int option" where
  "decimal s = (if s \<noteq> [] \<and> list_all (isRadixDigit 10) s then Some (digitsValue 10 0 s) else None)"

text \<open>
  \<^verbatim>\<open>new Date(s)\<close> for a date-only ISO string \<^verbatim>\<open>"YYYY-MM-DD"\<close>, the value of a date
  input for a year of four digits: it is read as midnight UTC of that day. How any other
  string is read (a year of more digits, a day the month does not have) is left to the
  engine; the model answers the Invalid Date for all of them, so what it says about a
  bound is the code's only for the values \<open>isInputDate\<close> accepts.
\<close>

definition Date_parse :: "string \<Rightarrow> number" where
  "Date_parse s =
     (if length s = 10 \<and> s ! 4 = CHR ''-'' \<and> s ! 7 = CHR ''-'' then
        (case decimal (take 4 s) of None \<Rightarrow> None | Some y \<Rightarrow>
         (case decimal (take 2 (drop 5 s)) of None \<Rightarrow> None | Some m \<Rightarrow>
          (case decimal (drop 8 s) of None \<Rightarrow> None | Some d \<Rightarrow>
             if 1 \<le> m \<and> m \<le> 12 \<and> 1 \<le> d \<and> d \<le> DaysInMonth y (m - 1)
             then midnight 0 (MakeDay y (m - 1) d) else None)))
      else None)"

definition isInputDate :: "string \<Rightarrow> bool" where
  "isInputDate v = (v = [] \<or> (case Date_parse v of None \<Rightarrow> False | Some t \<Rightarrow> True))"

text \<open>The comparisons \<^verbatim>\<open>a >= b\<close> and \<^verbatim>\<open>a <= b\<close> of two dates: false when one is invalid.\<close>

definition date_ge :: "number \<Rightarrow> number \<Rightarrow> bool" where
  "date_ge a b = (case a of None \<Rightarrow> False | Some x \<Rightarrow> (case b of None \<Rightarrow> False | Some y \<Rightarrow> y \<le> x))"

definition date_le :: "number \<Rightarrow> number \<Rightarrow> bool" where
  "date_le a b = (case a of None \<Rightarrow> False | Some x \<Rightarrow> (case b of None \<Rightarrow> False | Some y \<Rightarrow> x \<le> y))"

subsection \<open>parseDate (Table.tsx, lines 35 to 57)\<close>

text \<open>
  The table \<^verbatim>\<open>months\<close>. Looking up \<open>undefined\<close> or any other key gives a value whose
  number is \<open>NaN\<close>.
\<close>

definition months :: "string option \<Rightarrow> number" where
  "months k =
     (case k of None \<Rightarrow> None | Some s \<Rightarrow>
        if s = ''Jan'' then Some 0 else if s = ''Feb'' then Some 1
        else if s = ''Mar'' then Some 2 else if s = ''Apr'' then Some 3
        else if s = ''May'' then Some 4 else if s = ''Jun'' then Some 5
        else if s = ''Jul'' then Some 6 else if s = ''Aug'' then Some 7
        else if s = ''Sep'' then Some 8 else if s = ''Oct'' then Some 9
        else if s = ''Nov'' then Some 10 else if s = ''Dec'' then Some 11
        else None)"

definition parseDate :: "int \<Rightarrow> string \<Rightarrow> number" where
  "parseDate tza dateString =
     (let parts = split_space dateString;
          day = parseInt (index parts 0);
          month = months (index parts 1);
          year = parseInt (index parts 2)
      in Date_ymd tza year month day)"

subsection \<open>Component state\<close>

record TableState =
  records :: "Record list"
  sortField :: "SortField option"
  sortDirection :: SortDirection
  currentPage :: int
  filterStatus :: StatusFilter
  searchName :: string
  dateFrom :: string
  dateTo :: string

definition recordsPerPage :: nat where
  "recordsPerPage = 10"

text \<open>The state after \<^verbatim>\<open>useState\<close> initialisation with the property \<^verbatim>\<open>data\<close>.\<close>

definition initialState :: "Record list \<Rightarrow> TableState" where
  "initialState data =
     \<lparr>records = data, sortField = None, sortDirection = Asc, currentPage = 1,
      filterStatus = FilterAll, searchName = [], dateFrom = [], dateTo = []\<rparr>"

subsection \<open>Filter stage (Table.tsx, lines 60 to 90)\<close>

text \<open>A string used as a condition: the empty string counts as false.\<close>

definition truthy :: "string \<Rightarrow> bool" where
  "truthy v = (v \<noteq> [])"

definition dateMatch :: "int \<Rightarrow> TableState \<Rightarrow> Record \<Rightarrow> bool" where
  "dateMatch tza s r =
     (if truthy (dateFrom s) \<or> truthy (dateTo s) then
        (let recordDate = setHours tza 0 0 0 0 (parseDate tza (date (details r)));
             m1 = (if truthy (dateFrom s)
                   then date_ge recordDate (setHours tza 0 0 0 0 (Date_parse (dateFrom s)))
                   else True)
         in if truthy (dateTo s)
            then m1 \<and> date_le recordDate (setHours tza 23 59 59 999 (Date_parse (dateTo s)))
            else m1)
      else True)"

definition passes :: "int \<Rightarrow> TableState \<Rightarrow> Record \<Rightarrow> bool" where
  "passes tza s r =
     (let statusMatch = (filterStatus s = FilterAll \<or> FilterOnly (status (about r)) = filterStatus s);
          nameMatch = includes_str (toLowerCase (name (about r))) (toLowerCase (searchName s))
      in statusMatch \<and> nameMatch \<and> dateMatch tza s r)"

definition filteredData :: "int \<Rightarrow> TableState \<Rightarrow> Record list" where
  "filteredData tza s = filter (passes tza s) (records s)"

subsection \<open>Sort stage (Table.tsx, lines 93 to 133)\<close>

text \<open>The difference \<^verbatim>\<open>a - b\<close> of two time values: \<open>NaN\<close> when one of them is.\<close>

definition num_sub :: "number \<Rightarrow> number \<Rightarrow> number" where
  "num_sub a b = (case a of None \<Rightarrow> None | Some x \<Rightarrow> (case b of None \<Rightarrow> None | Some y \<Rightarrow> Some (x - y)))"

text \<open>
  The comparator passed to \<^verbatim>\<open>sort\<close>. \<open>localeCompare\<close> is the collation of the
  browser, a parameter of the model.
\<close>

definition stringCompare ::
  "(string \<Rightarrow> string \<Rightarrow> int) \<Rightarrow> SortDirection \<Rightarrow> string \<Rightarrow> string \<Rightarrow> number" where
  "stringCompare localeCompare sd aValue bValue =
     (let comparison = localeCompare aValue bValue
      in Some (if sd = Asc then comparison else - comparison))"

definition compareRecords ::
  "int \<Rightarrow> (string \<Rightarrow> string \<Rightarrow> int) \<Rightarrow> SortField option \<Rightarrow> SortDirection
     \<Rightarrow> Record \<Rightarrow> Record \<Rightarrow> number" where
  "compareRecords tza localeCompare sf sd a b =
     (case sf of
        None \<Rightarrow> Some 0
      | Some SortName \<Rightarrow> stringCompare localeCompare sd (name (about a)) (name (about b))
      | Some SortEmail \<Rightarrow> stringCompare localeCompare sd (email (about a)) (email (about b))
      | Some SortDate \<Rightarrow>
          (let aValue = parseDate tza (date (details a));
               bValue = parseDate tza (date (details b))
           in if sd = Asc then num_sub aValue bValue else num_sub bValue aValue)
      | Some SortInvitedBy \<Rightarrow>
          stringCompare localeCompare sd (invitedBy (details a)) (invitedBy (details b))
      | Some SortStatus \<Rightarrow>
          stringCompare localeCompare sd (Status_str (status (about a)))
            (Status_str (status (about b))))"

text \<open>
  \<^verbatim>\<open>Array.prototype.sort(comparefn)\<close>. A comparator result that is \<open>NaN\<close> counts as 0.
  The language fixes the result for a comparator that is consistent on the elements of
  the array (\<open>consistentOn\<close>, the conditions of the language definition): the stable
  sort, which the insertion sort below computes. For any other comparator the order of
  the result is left to the engine; there the insertion sort gives one permutation, which
  need not be the engine's, and only the length and the elements of the result are the
  code's.
\<close>

definition sortCompare :: "('a \<Rightarrow> 'a \<Rightarrow> number) \<Rightarrow> 'a \<Rightarrow> 'a \<Rightarrow> int" where
  "sortCompare comparefn x y = (case comparefn x y of None \<Rightarrow> 0 | Some v \<Rightarrow> v)"


fun insertSorted :: "('a \<Rightarrow> 'a \<Rightarrow> number) \<Rightarrow> 'a \<Rightarrow> 'a list \<Rightarrow> 'a list" where
  "insertSorted comparefn x [] = [x]"
| "insertSorted comparefn x (y # ys) =
     (if 0 < sortCompare comparefn x y then y # insertSorted comparefn x ys else x # y # ys)"

definition Array_sort :: "('a \<Rightarrow> 'a \<Rightarrow> number) \<Rightarrow> 'a list \<Rightarrow> 'a list" where
  "Array_sort comparefn xs = foldr (insertSorted comparefn) xs []"

definition sortedData :: "int \<Rightarrow> (string \<Rightarrow> string \<Rightarrow> int) \<Rightarrow> TableState \<Rightarrow> Record list" where
  "sortedData tza localeCompare s =
     Array_sort (compareRecords tza localeCompare (sortField s) (sortDirection s))
       (filteredData tza s)"

subsection \<open>Pagination stage (Table.tsx, lines 136 to 139)\<close>

text \<open>
  \<^verbatim>\<open>Math.ceil(n / recordsPerPage)\<close> for an array length \<open>n\<close>. The quotient of an
  array length by 10 is an integer or at least a tenth away from one, so the ceiling of
  the double quotient is the ceiling of the exact quotient.
\<close>

definition totalPages :: "int \<Rightarrow> (string \<Rightarrow> string \<Rightarrow> int) \<Rightarrow> TableState \<Rightarrow> int" where
  "totalPages tza localeCompare s =
     \<lceil>rat_of_nat (length (sortedData tza localeCompare s)) / rat_of_nat recordsPerPage\<rceil>"

definition startIndex :: "TableState \<Rightarrow> int" where
  "startIndex s = (currentPage s - 1) * int recordsPerPage"

definition endIndex :: "TableState \<Rightarrow> int" where
  "endIndex s = startIndex s + int recordsPerPage"

text \<open>
  \<^verbatim>\<open>xs.slice(start, end)\<close>: a negative index counts from the end, and both indices are
  cut to the array.
\<close>

definition slice :: "'a list \<Rightarrow> int \<Rightarrow> int \<Rightarrow> 'a list" where
  "slice xs start fin =
     (let len = int (length xs);
          k = (if start < 0 then max (len + start) 0 else min start len);
          final = (if fin < 0 then max (len + fin) 0 else min fin len)
      in take (nat (final - k)) (drop (nat k) xs))"

definition currentRecords :: "int \<Rightarrow> (string \<Rightarrow> string \<Rightarrow> int) \<Rightarrow> TableState \<Rightarrow> Record list" where
  "currentRecords tza localeCompare s =
     slice (sortedData tza localeCompare s) (startIndex s) (endIndex s)"

subsection \<open>Event handlers\<close>

definition handleSort :: "SortField \<Rightarrow> TableState \<Rightarrow> TableState" where
  "handleSort field s =
     (if sortField s = Some field
      then s\<lparr>sortDirection := (if sortDirection s = Asc then Desc else Asc)\<rparr>
      else s\<lparr>sortField := Some field, sortDirection := Asc\<rparr>)"

definition handleClearFilters :: "TableState \<Rightarrow> TableState" where
  "handleClearFilters s =
     s\<lparr>filterStatus := FilterAll, searchName := [], dateFrom := [], dateTo := [],
       currentPage := 1\<rparr>"

text \<open>
  \<^verbatim>\<open>prevRecords.map(record => record.id === recordId ? {...record, about:
  {...record.about, status: newStatus}} : record)\<close>
\<close>

definition updateStatus :: "string \<Rightarrow> Status \<Rightarrow> Record \<Rightarrow> Record" where
  "updateStatus recordId newStatus record =
     (if rec_id record = recordId
      then record\<lparr>about := (about record)\<lparr>status := newStatus\<rparr>\<rparr>
      else record)"

definition handleStatusUpdate :: "string \<Rightarrow> Status \<Rightarrow> TableState \<Rightarrow> TableState" where
  "handleStatusUpdate recordId newStatus s =
     s\<lparr>records := map (updateStatus recordId newStatus) (records s)\<rparr>"

text \<open>
  The events of the rendered component. A disabled button does not fire, and the three
  row buttons exist only for the records of the current page.
\<close>

datatype Event =
    SearchChange string
  | StatusFilterChange StatusFilter
  | DateFromChange string
  | DateToChange string
  | ClearFiltersClick
  | HeaderClick SortField
  | PreviousClick
  | NextClick
  | BlockClick string
  | ActivateClick string
  | ViewDetailsClick string

definition rowShown :: "int \<Rightarrow> (string \<Rightarrow> string \<Rightarrow> int) \<Rightarrow> TableState \<Rightarrow> string \<Rightarrow> bool" where
  "rowShown tza localeCompare s recordId =
     (recordId \<in> set (map rec_id (currentRecords tza localeCompare s)))"

fun handle :: "int \<Rightarrow> (string \<Rightarrow> string \<Rightarrow> int) \<Rightarrow> TableState \<Rightarrow> Event \<Rightarrow> TableState" where
  "handle tza lc s (SearchChange v) = s\<lparr>searchName := v, currentPage := 1\<rparr>"
| "handle tza lc s (StatusFilterChange v) = s\<lparr>filterStatus := v, currentPage := 1\<rparr>"
| "handle tza lc s (DateFromChange v) = s\<lparr>dateFrom := v, currentPage := 1\<rparr>"
| "handle tza lc s (DateToChange v) = s\<lparr>dateTo := v, currentPage := 1\<rparr>"
| "handle tza lc s ClearFiltersClick = handleClearFilters s"
| "handle tza lc s (HeaderClick field) = handleSort field s"
| "handle tza lc s PreviousClick =
     (if currentPage s = 1 then s else s\<lparr>currentPage := max (currentPage s - 1) 1\<rparr>)"
| "handle tza lc s NextClick =
     (if currentPage s = totalPages tza lc s then s
      else s\<lparr>currentPage := min (currentPage s + 1) (totalPages tza lc s)\<rparr>)"
| "handle tza lc s (BlockClick recordId) =
     (if rowShown tza lc s recordId then handleStatusUpdate recordId BLOCKED s else s)"
| "handle tza lc s (ActivateClick recordId) =
     (if rowShown tza lc s recordId then handleStatusUpdate recordId ACTIVE s else s)"
| "handle tza lc s (ViewDetailsClick recordId) =
     (if rowShown tza lc s recordId then handleStatusUpdate recordId INACTIVE s else s)"

text \<open>The state after a sequence of events, oldest first.\<close>

definition run :: "int \<Rightarrow> (string \<Rightarrow> string \<Rightarrow> int) \<Rightarrow> TableState \<Rightarrow> Event list \<Rightarrow> TableState" where
  "run tza lc s evs = foldl (handle tza lc) s evs"

subsection \<open>Aggregate statistics (Table.tsx, lines 178 to 187)\<close>

text \<open>
  The percentages are computed in double precision, and a tie of the exact value can be
  lost to rounding, so the two operations are modelled with their rounding. A finite
  double is the rational it denotes; \<open>fl x\<close> is the double nearest to \<open>x\<close> (53
  significant bits, ties to the even significand), for the magnitudes that occur here
  (no overflow, no subnormal result).
\<close>

definition roundHalfEven :: "rat \<Rightarrow> int" where
  "roundHalfEven y =
     (let n = \<lfloor>y\<rfloor>; r = y - of_int n
      in if r < 1 / 2 then n else if 1 / 2 < r then n + 1 else if even n then n else n + 1)"

text \<open>The exponent \<open>e\<close> with \<open>2^e \<le> x < 2^(e+1)\<close>, for positive \<open>x\<close>.\<close>

definition binaryExponent :: "rat \<Rightarrow> int" where
  "binaryExponent x =
     (let (a, b) = quotient_of x; e0 = bitlen a - bitlen b
      in if 2 powi e0 \<le> x then e0 else e0 - 1)"

definition fl :: "rat \<Rightarrow> rat" where
  "fl x =
     (if x = 0 then 0
      else (let e = binaryExponent \<bar>x\<bar> - 52
            in sgn x * (of_int (roundHalfEven (\<bar>x\<bar> / 2 powi e)) * 2 powi e)))"

text \<open>
  The text \<^verbatim>\<open>x.toFixed(0)\<close> produces: for a finite \<open>x \<ge> 0\<close> below \<open>10^21\<close> the
  digits of the integer nearest to \<open>x\<close>, the larger one of two nearest; \<^verbatim>\<open>"NaN"\<close> and
  \<^verbatim>\<open>"Infinity"\<close> for these two values.
\<close>

datatype FixedText = NaN_text | Infinity_text | Integer_text int

definition toFixed0 :: "rat \<Rightarrow> int" where
  "toFixed0 x = \<lfloor>x + 1 / 2\<rfloor>"

text \<open>\<^verbatim>\<open>((count / total) * 100).toFixed(0)\<close> for two array lengths.\<close>

definition percentage :: "nat \<Rightarrow> nat \<Rightarrow> FixedText" where
  "percentage cnt tot =
     (if tot = 0 then (if cnt = 0 then NaN_text else Infinity_text)
      else Integer_text (toFixed0 (fl (fl (rat_of_nat cnt / rat_of_nat tot) * 100))))"

definition totalUsers :: "TableState \<Rightarrow> nat" where
  "totalUsers s = length (records s)"

definition activeCount :: "TableState \<Rightarrow> nat" where
  "activeCount s = length (filter (\<lambda>r. status (about r) = ACTIVE) (records s))"

definition inactiveCount :: "TableState \<Rightarrow> nat" where
  "inactiveCount s = length (filter (\<lambda>r. status (about r) = INACTIVE) (records s))"

definition blockedCount :: "TableState \<Rightarrow> nat" where
  "blockedCount s = length (filter (\<lambda>r. status (about r) = BLOCKED) (records s))"

definition inactivePercentage :: "TableState \<Rightarrow> FixedText" where
  "inactivePercentage s = percentage (inactiveCount s) (totalUsers s)"

definition blockedPercentage :: "TableState \<Rightarrow> FixedText" where
  "blockedPercentage s = percentage (blockedCount s) (totalUsers s)"

subsection \<open>One render as operations on a store of arrays\<close>

text \<open>
  To state what a render leaves untouched, its arrays are placed in a store.
  \<^verbatim>\<open>filter\<close>, the spread \<^verbatim>\<open>[...xs]\<close> and \<^verbatim>\<open>slice\<close> allocate a new array;
  \<^verbatim>\<open>sort\<close> rearranges the array it is called on. No stage assigns to a field of a
  record, so an array holds its records by value.
\<close>

type_synonym addr = nat

record Store =
  arrays :: "addr \<Rightarrow> Record list option"
  nextAddr :: addr

definition alloc :: "Record list \<Rightarrow> Store \<Rightarrow> addr \<times> Store" where
  "alloc xs h = (nextAddr h, h\<lparr>arrays := (arrays h)(nextAddr h \<mapsto> xs), nextAddr := Suc (nextAddr h)\<rparr>)"

definition readArray :: "addr \<Rightarrow> Store \<Rightarrow> Record list" where
  "readArray a h = (case arrays h a of None \<Rightarrow> [] | Some xs \<Rightarrow> xs)"

definition Array_filter_st :: "(Record \<Rightarrow> bool) \<Rightarrow> addr \<Rightarrow> Store \<Rightarrow> addr \<times> Store" where
  "Array_filter_st p a h = alloc (filter p (readArray a h)) h"

definition Array_spread_st :: "addr \<Rightarrow> Store \<Rightarrow> addr \<times> Store" where
  "Array_spread_st a h = alloc (readArray a h) h"

definition Array_sort_st :: "(Record \<Rightarrow> Record \<Rightarrow> number) \<Rightarrow> addr \<Rightarrow> Store \<Rightarrow> addr \<times> Store" where
  "Array_sort_st comparefn a h = (a, h\<lparr>arrays := (arrays h)(a \<mapsto> Array_sort comparefn (readArray a h))\<rparr>)"

definition Array_slice_st :: "addr \<Rightarrow> int \<Rightarrow> int \<Rightarrow> Store \<Rightarrow> addr \<times> Store" where
  "Array_slice_st a start fin h = alloc (slice (readArray a h) start fin) h"

text \<open>
  Lines 60 to 139 of one render: \<^verbatim>\<open>records\<close> is the array at \<open>recordsAddr\<close>, and the
  result names the arrays \<^verbatim>\<open>filteredData\<close>, \<^verbatim>\<open>sortedData\<close> and
  \<^verbatim>\<open>currentRecords\<close>.
\<close>

definition render ::
  "int \<Rightarrow> (string \<Rightarrow> string \<Rightarrow> int) \<Rightarrow> TableState \<Rightarrow> addr \<Rightarrow> Store
     \<Rightarrow> (addr \<times> addr \<times> addr) \<times> Store" where
  "render tza lc s recordsAddr h0 =
     (let (filteredAddr, h1) = Array_filter_st (passes tza s) recordsAddr h0;
          (copyAddr, h2) = Array_spread_st filteredAddr h1;
          (sortedAddr, h3) =
             Array_sort_st (compareRecords tza lc (sortField s) (sortDirection s)) copyAddr h2;
          (currentAddr, h4) = Array_slice_st sortedAddr (startIndex s) (endIndex s) h3
      in ((filteredAddr, sortedAddr, currentAddr), h4))"

text \<open>The events that are not one of the three row buttons.\<close>

fun isRowButton :: "Event \<Rightarrow> bool" where
  "isRowButton (BlockClick i) = True"
| "isRowButton (ActivateClick i) = True"
| "isRowButton (ViewDetailsClick i) = True"
| "isRowButton e = False"

subsection \<open>The filter contract in the words of the specification\<close>

text \<open>
  The calendar day a date input value \<^verbatim>\<open>"YYYY-MM-DD"\<close> names, as a day number, and the
  local times 00:00:00.000 and 23:59:59.999 of a day.
\<close>

definition inputDay :: "string \<Rightarrow> int option" where
  "inputDay v = (case Date_parse v of None \<Rightarrow> None | Some t \<Rightarrow> Some (t div msPerDay))"

definition startOfDay :: "int \<Rightarrow> int option \<Rightarrow> number" where
  "startOfDay tza day = (case day of None \<Rightarrow> None | Some d \<Rightarrow> TimeClip (d * msPerDay - tza))"

definition endOfDay :: "int \<Rightarrow> int option \<Rightarrow> number" where
  "endOfDay tza day =
     (case day of None \<Rightarrow> None | Some d \<Rightarrow> TimeClip (d * msPerDay + 86399999 - tza))"

text \<open>
  A record passes iff (the status filter is ALL or equals the record's status) and (the
  search string, case-folded, is a substring of the case-folded name) and (no date bound
  is set, or the record's parsed date, normalized to the start of its day, lies within
  [from 00:00:00, to 23:59:59.999], using only the bounds that are set).
\<close>

definition withinBounds_spec :: "int \<Rightarrow> TableState \<Rightarrow> Record \<Rightarrow> bool" where
  "withinBounds_spec tza s r =
     (let t = setHours tza 0 0 0 0 (parseDate tza (date (details r)))
      in (dateFrom s = [] \<or> date_ge t (startOfDay tza (inputDay (dateFrom s))))
         \<and> (dateTo s = [] \<or> date_le t (endOfDay tza (inputDay (dateTo s)))))"

definition passes_spec :: "int \<Rightarrow> TableState \<Rightarrow> Record \<Rightarrow> bool" where
  "passes_spec tza s r =
     ((filterStatus s = FilterAll \<or> filterStatus s = FilterOnly (status (about r)))
      \<and> sublist (toLowerCase (searchName s)) (toLowerCase (name (about r)))
      \<and> ((dateFrom s = [] \<and> dateTo s = []) \<or> withinBounds_spec tza s r))"


subsection \<open>Sample data\<close>

definition sampleRecord :: "string \<Rightarrow> string \<Rightarrow> Status \<Rightarrow> string \<Rightarrow> Record" where
  "sampleRecord i n st d =
     \<lparr>rec_id = i,
      about = \<lparr>name = n, status = st, email = ''user@demo.com''\<rparr>,
      details = \<lparr>date = d, invitedBy = ''Jane Brown''\<rparr>\<rparr>"

definition activeRecord :: "string \<Rightarrow> Record" where
  "activeRecord i = sampleRecord i ''John Smith'' ACTIVE ''05 Mar 2024''"

definition elevenRecords :: "Record list" where
  "elevenRecords =
     [activeRecord ''1'', activeRecord ''2'', activeRecord ''3'', activeRecord ''4'',
      activeRecord ''5'', activeRecord ''6'', activeRecord ''7'', activeRecord ''8'',
      activeRecord ''9'', activeRecord ''10'', activeRecord ''11'']"

text \<open>A store that holds one array, at address 0.\<close>

definition sampleStore :: "Record list \<Rightarrow> Store" where
  "sampleStore xs = \<lparr>arrays = (\<lambda>a. if a = 0 then Some xs else None), nextAddr = 1\<rparr>"

text \<open>A sample collation: comparison by character code.\<close>

fun codeUnitCompare :: "string \<Rightarrow> string \<Rightarrow> int" where
  "codeUnitCompare [] [] = 0"
| "codeUnitCompare [] (y # ys) = - 1"
| "codeUnitCompare (x # xs) [] = 1"
| "codeUnitCompare (x # xs) (y # ys) =
     (if (of_char x :: nat) < of_char y then - 1
      else if (of_char y :: nat) < of_char x then 1
      else codeUnitCompare xs ys)"

section \<open>Properties\<close>

subsection \<open>Auxiliary facts\<close>

lemma includes_iff_sublist: "includes_str s sub \<longleftrightarrow> sublist sub s"
  by (induction s) (auto simp: sublist_Cons_right)

lemma includes_str_Nil: "includes_str s []"
  by (induction s) auto

lemma length_insertSorted: "length (insertSorted c x ys) = Suc (length ys)"
  by (induction ys) auto

lemma length_Array_sort: "length (Array_sort c xs) = length xs"
  by (induction xs) (auto simp: Array_sort_def length_insertSorted)



lemma insertSorted_tie:
  assumes "\<And>y. \<not> 0 < sortCompare c x y"
  shows "insertSorted c x ys = x # ys"
  by (cases ys) (simp_all add: assms)

lemma Array_sort_ties:
  assumes "\<And>x y. \<not> 0 < sortCompare c x y"
  shows "Array_sort c xs = xs"
  by (induction xs) (simp_all add: Array_sort_def insertSorted_tie assms)

lemma length_sortedData: "length (sortedData tza lc s) = length (filteredData tza s)"
  by (simp add: sortedData_def length_Array_sort)

text \<open>With no sort field the sort stage passes the filtered sequence through.\<close>

lemma sortedData_unsorted: "sortField s = None \<Longrightarrow> sortedData tza lc s = filteredData tza s"
  by (simp add: sortedData_def compareRecords_def sortCompare_def Array_sort_ties)

lemma initialState_sel [simp]:
  "records (initialState data) = data"
  "sortField (initialState data) = None"
  "sortDirection (initialState data) = Asc"
  "currentPage (initialState data) = 1"
  "filterStatus (initialState data) = FilterAll"
  "searchName (initialState data) = []"
  "dateFrom (initialState data) = []"
  "dateTo (initialState data) = []"
  by (simp_all add: initialState_def)

text \<open>With status ALL, an empty search and no date bound every record passes.\<close>

lemma filteredData_initialState: "filteredData tza (initialState data) = data"
  by (simp add: filteredData_def passes_def dateMatch_def truthy_def toLowerCase_def includes_str_Nil)

lemma passes_sort_irrelevant [simp]:
  "passes tza (s\<lparr>sortField := f\<rparr>) = passes tza s"
  "passes tza (s\<lparr>sortDirection := d\<rparr>) = passes tza s"
  "passes tza (s\<lparr>currentPage := p\<rparr>) = passes tza s"
  by (rule ext, simp add: passes_def dateMatch_def)+

lemma filteredData_sort_irrelevant [simp]:
  "filteredData tza (s\<lparr>sortField := f\<rparr>) = filteredData tza s"
  "filteredData tza (s\<lparr>sortDirection := d\<rparr>) = filteredData tza s"
  "filteredData tza (s\<lparr>currentPage := p\<rparr>) = filteredData tza s"
  by (simp_all add: filteredData_def)

lemma totalPages_div: "totalPages tza lc s = (int (length (filteredData tza s)) + 9) div 10"
proof -
  have "\<lceil>rat_of_nat n / 10\<rceil> = (int n + 9) div 10" for n
  proof -
    have "rat_of_nat n / 10 = of_int (int n) / of_int 10" by simp
    then have "\<lceil>rat_of_nat n / 10\<rceil> = - ((- int n) div 10)"
      by (metis ceiling_divide_eq_div)
    then show ?thesis by linarith
  qed
  then show ?thesis by (simp add: totalPages_def length_sortedData recordsPerPage_def)
qed

lemma totalPages_sort_irrelevant [simp]:
  "totalPages tza lc (s\<lparr>sortField := f\<rparr>) = totalPages tza lc s"
  "totalPages tza lc (s\<lparr>sortDirection := d\<rparr>) = totalPages tza lc s"
  "totalPages tza lc (s\<lparr>currentPage := p\<rparr>) = totalPages tza lc s"
  by (simp_all add: totalPages_div)

lemma map_updateStatus_absent:
  "i \<notin> rec_id ` set rs \<Longrightarrow> map (updateStatus i st) rs = rs"
  by (induction rs) (auto simp: updateStatus_def)

lemma blocked_after_update:
  assumes "distinct (map rec_id rs)" and "r \<in> set rs"
  shows "length (filter (\<lambda>x. status (about x) = BLOCKED) (map (updateStatus (rec_id r) BLOCKED) rs)) =
         length (filter (\<lambda>x. status (about x) = BLOCKED) rs) + (if status (about r) = BLOCKED then 0 else 1)"
  using assms
proof (induction rs)
  case Nil
  then show ?case by simp
next
  case (Cons a rs)
  show ?case
  proof (cases "a = r")
    case True
    then have "rec_id r \<notin> rec_id ` set rs" using Cons.prems(1) by auto
    then have m: "map (updateStatus (rec_id r) BLOCKED) rs = rs" by (rule map_updateStatus_absent)
    have u: "updateStatus (rec_id r) BLOCKED r = r\<lparr>about := (about r)\<lparr>status := BLOCKED\<rparr>\<rparr>"
      by (simp add: updateStatus_def)
    show ?thesis by (simp add: m u True)
  next
    case False
    then have r: "r \<in> set rs" using Cons.prems(2) by simp
    then have "rec_id a \<noteq> rec_id r" using Cons.prems(1) by auto
    then have "updateStatus (rec_id r) BLOCKED a = a" by (simp add: updateStatus_def)
    moreover have "distinct (map rec_id rs)" using Cons.prems(1) by simp
    ultimately show ?thesis using Cons.IH r by (simp del: filter_map)
  qed
qed

lemma totalPages_empty: "filteredData tza s = [] \<Longrightarrow> totalPages tza lc s = 0"
  by (simp add: totalPages_div)

lemma totalPages_nonempty: "filteredData tza s \<noteq> [] \<Longrightarrow> 1 \<le> totalPages tza lc s"
proof -
  assume "filteredData tza s \<noteq> []"
  then have "1 \<le> int (length (filteredData tza s))" by (cases "filteredData tza s") simp_all
  then show ?thesis unfolding totalPages_div by presburger
qed

lemma run_Nil: "run tza lc s [] = s"
  by (simp add: run_def)

lemma run_snoc: "run tza lc s (evs @ [e]) = handle tza lc (run tza lc s evs) e"
  by (simp add: run_def)

text \<open>Only the three row buttons replace the record store.\<close>

lemma records_handle_view: "\<not> isRowButton e \<Longrightarrow> records (handle tza lc s e) = records s"
  by (cases e) (simp_all add: handleClearFilters_def handleSort_def)

subsection \<open>Pagination\<close>

text \<open>
  Claim C2, as amended. \<open>totalPages\<close> is the ceiling of \<open>n / 10\<close> for the length \<open>n\<close>
  of the sorted and filtered sequence: the least number of pages of ten that hold \<open>n\<close>
  records. It is 0 exactly when the sequence is empty and at least 1 exactly when it is
  not.
\<close>

theorem totalPages_ceiling:
  "10 * (totalPages tza lc s - 1) < int (length (sortedData tza lc s))
   \<and> int (length (sortedData tza lc s)) \<le> 10 * totalPages tza lc s
   \<and> (totalPages tza lc s = 0) = (sortedData tza lc s = [])
   \<and> (1 \<le> totalPages tza lc s) = (sortedData tza lc s \<noteq> [])"
proof -
  define n where "n = int (length (sortedData tza lc s))"
  have T: "totalPages tza lc s = (n + 9) div 10"
    by (simp add: n_def totalPages_div length_sortedData)
  have e: "(sortedData tza lc s = []) = (n = 0)"
    by (simp add: n_def)
  have "0 \<le> n" by (simp add: n_def)
  then have "10 * ((n + 9) div 10 - 1) < n" "n \<le> 10 * ((n + 9) div 10)"
    "((n + 9) div 10 = 0) = (n = 0)" "(1 \<le> (n + 9) div 10) = (n \<noteq> 0)"
    by presburger+
  then show ?thesis unfolding T e n_def [symmetric] by simp
qed

text \<open>
  Claim C2 as stated fails on an empty sequence: a search that matches no record leaves
  no record to sort, and \<open>totalPages\<close> is 0, not 1.
\<close>

theorem totalPages_empty_counterexample:
  "length (sortedData 0 codeUnitCompare
      ((initialState [sampleRecord ''1'' ''John Smith'' ACTIVE ''05 Mar 2024''])\<lparr>searchName := ''zzz''\<rparr>)) = 0
   \<and> totalPages 0 codeUnitCompare
      ((initialState [sampleRecord ''1'' ''John Smith'' ACTIVE ''05 Mar 2024''])\<lparr>searchName := ''zzz''\<rparr>) = 0"
  by (simp add: totalPages_div length_sortedData filteredData_def passes_def dateMatch_def
      truthy_def sampleRecord_def toLowerCase_def toLowerCase_char_def)

text \<open>
  Claim C3 at a concrete input. On page 2 of eleven records a click on the Name header
  (\<open>handleSort\<close>) leaves \<open>currentPage\<close> at 2, where a change of the search text resets
  it to 1.
\<close>

theorem handleSort_keeps_page:
  "currentPage (run 0 lc (initialState elevenRecords) [NextClick, HeaderClick SortName]) = 2
   \<and> currentPage (run 0 lc (initialState elevenRecords) [NextClick, SearchChange ''John'']) = 1"
  by (simp add: run_def totalPages_div filteredData_initialState handleSort_def
      elevenRecords_def)

text \<open>
  The page invariant of the events that are not row buttons: while the filtered sequence
  is not empty the current page is within \<open>1 .. totalPages\<close>; while it is empty the
  current page is 0 or 1.
\<close>

lemma page_invariant_step:
  assumes e: "\<not> isRowButton e"
    and inv: "if filteredData tza s = [] then currentPage s = 0 \<or> currentPage s = 1
              else 1 \<le> currentPage s \<and> currentPage s \<le> totalPages tza lc s"
  shows "if filteredData tza (handle tza lc s e) = []
         then currentPage (handle tza lc s e) = 0 \<or> currentPage (handle tza lc s e) = 1
         else 1 \<le> currentPage (handle tza lc s e)
            \<and> currentPage (handle tza lc s e) \<le> totalPages tza lc (handle tza lc s e)"
proof (cases e)
  case (SearchChange v)
  then show ?thesis by (simp add: totalPages_nonempty)
next
  case (StatusFilterChange v)
  then show ?thesis by (simp add: totalPages_nonempty)
next
  case (DateFromChange v)
  then show ?thesis by (simp add: totalPages_nonempty)
next
  case (DateToChange v)
  then show ?thesis by (simp add: totalPages_nonempty)
next
  case ClearFiltersClick
  then show ?thesis by (simp add: handleClearFilters_def totalPages_nonempty)
next
  case (HeaderClick f)
  then show ?thesis using inv by (simp add: handleSort_def)
next
  case PreviousClick
  show ?thesis
  proof (cases "filteredData tza s = []")
    case True
    then show ?thesis using inv PreviousClick by auto
  next
    case False
    then show ?thesis using inv PreviousClick by auto
  qed
next
  case NextClick
  show ?thesis
  proof (cases "filteredData tza s = []")
    case True
    then show ?thesis using inv NextClick totalPages_empty [OF True, of lc] by auto
  next
    case False
    then show ?thesis using inv NextClick by auto
  qed
next
  case (BlockClick i)
  then show ?thesis using e by simp
next
  case (ActivateClick i)
  then show ?thesis using e by simp
next
  case (ViewDetailsClick i)
  then show ?thesis using e by simp
qed

lemma page_invariant_run:
  assumes "list_all (\<lambda>e. \<not> isRowButton e) evs"
  shows "if filteredData tza (run tza lc (initialState data) evs) = []
         then currentPage (run tza lc (initialState data) evs) = 0
            \<or> currentPage (run tza lc (initialState data) evs) = 1
         else 1 \<le> currentPage (run tza lc (initialState data) evs)
            \<and> currentPage (run tza lc (initialState data) evs)
                \<le> totalPages tza lc (run tza lc (initialState data) evs)"
  using assms
proof (induction evs rule: rev_induct)
  case Nil
  then show ?case by (simp add: run_Nil totalPages_nonempty)
next
  case (snoc e evs)
  from snoc.prems have e: "\<not> isRowButton e" and evs: "list_all (\<lambda>e. \<not> isRowButton e) evs"
    by simp_all
  show ?case
    unfolding run_snoc by (rule page_invariant_step [OF e snoc.IH [OF evs]])
qed

text \<open>
  In every state reached from the initial state by the pagination buttons and the
  filter, sort and clear actions in which the filtered sequence is not empty,
  \<open>currentPage\<close> lies in the range from 1 to \<open>totalPages\<close>.
\<close>

theorem currentPage_in_range:
  assumes "list_all (\<lambda>e. \<not> isRowButton e) evs"
    and "filteredData tza (run tza lc (initialState data) evs) \<noteq> []"
  shows "1 \<le> currentPage (run tza lc (initialState data) evs)
       \<and> currentPage (run tza lc (initialState data) evs)
           \<le> totalPages tza lc (run tza lc (initialState data) evs)"
  using page_invariant_run [OF assms(1), of tza lc data] assms(2) by simp

theorem currentPage_in_range_witness:
  "list_all (\<lambda>e. \<not> isRowButton e) [NextClick, HeaderClick SortDate]
   \<and> filteredData 0 (run 0 codeUnitCompare (initialState elevenRecords) [NextClick, HeaderClick SortDate]) \<noteq> []
   \<and> currentPage (run 0 codeUnitCompare (initialState elevenRecords) [NextClick, HeaderClick SortDate]) = 2
   \<and> totalPages 0 codeUnitCompare (run 0 codeUnitCompare (initialState elevenRecords) [NextClick, HeaderClick SortDate]) = 2"
  using currentPage_in_range [of "[NextClick, HeaderClick SortDate]" 0 codeUnitCompare elevenRecords]
  by (simp add: run_def totalPages_div filteredData_initialState handleSort_def elevenRecords_def)

text \<open>
  Claim C4 at a concrete input. After a search that matches nothing the Next button is
  enabled (page 1 of 0), and a click on it sets \<open>currentPage\<close> to \<open>min 2 0 = 0\<close>,
  below the floor of 1 that the Previous button keeps.
\<close>

theorem page_zero_counterexample:
  "currentPage (run 0 codeUnitCompare
      (initialState [sampleRecord ''1'' ''John Smith'' ACTIVE ''05 Mar 2024''])
      [SearchChange ''zzz'', NextClick]) = 0
   \<and> totalPages 0 codeUnitCompare (run 0 codeUnitCompare
      (initialState [sampleRecord ''1'' ''John Smith'' ACTIVE ''05 Mar 2024''])
      [SearchChange ''zzz'', NextClick]) = 0"
  by (simp add: run_def totalPages_div filteredData_def passes_def dateMatch_def
      truthy_def sampleRecord_def toLowerCase_def toLowerCase_char_def)

subsection \<open>Status mutation\<close>

text \<open>
  Claim C6. In a store with unique ids, updating the status of a record \<open>r\<close> of the store
  keeps the number of records, leaves every record with another id as it is, changes
  nothing but \<open>about.status\<close> in the record with that id, and the blocked count grows by
  1 when \<open>r\<close> was not BLOCKED and is set to BLOCKED, and stays when it was BLOCKED.
\<close>

theorem handleStatusUpdate_frame:
  assumes "distinct (map rec_id (records s))" and "r \<in> set (records s)"
  shows "length (records (handleStatusUpdate (rec_id r) st s)) = length (records s)
    \<and> (\<forall>i < length (records s).
          (let old = records s ! i; new = records (handleStatusUpdate (rec_id r) st s) ! i
           in if rec_id old = rec_id r
              then rec_id new = rec_id old \<and> name (about new) = name (about old)
                 \<and> email (about new) = email (about old) \<and> details new = details old
                 \<and> status (about new) = st
              else new = old))
    \<and> blockedCount (handleStatusUpdate (rec_id r) BLOCKED s)
        = blockedCount s + (if status (about r) = BLOCKED then 0 else 1)"
  using blocked_after_update [OF assms]
  by (simp add: handleStatusUpdate_def blockedCount_def updateStatus_def Let_def)

theorem handleStatusUpdate_frame_witness:
  "distinct (map rec_id (records (initialState elevenRecords)))
   \<and> activeRecord ''5'' \<in> set (records (initialState elevenRecords))
   \<and> length (records (handleStatusUpdate ''5'' BLOCKED (initialState elevenRecords))) = 11
   \<and> blockedCount (initialState elevenRecords) = 0
   \<and> blockedCount (handleStatusUpdate ''5'' BLOCKED (initialState elevenRecords)) = 1"
  using handleStatusUpdate_frame [of "initialState elevenRecords" "activeRecord ''5''" BLOCKED]
  by (simp add: elevenRecords_def activeRecord_def sampleRecord_def blockedCount_def)

text \<open>
  Claim C7 at a concrete input. The third row button (View Details) calls
  \<open>handleStatusUpdate\<close> with the literal INACTIVE: after one click on it the only
  record of the store has a status outside ACTIVE, INVITED, BLOCKED.
\<close>

theorem viewDetails_sets_INACTIVE:
  "map (\<lambda>r. status (about r))
     (records (run 0 lc (initialState [sampleRecord ''1'' ''John Smith'' ACTIVE ''05 Mar 2024''])
        [ViewDetailsClick ''1''])) = [INACTIVE]"
  by (simp add: run_def rowShown_def currentRecords_def sortedData_unsorted
      filteredData_initialState slice_def startIndex_def endIndex_def recordsPerPage_def
      handleStatusUpdate_def updateStatus_def sampleRecord_def)

subsection \<open>What a render leaves untouched\<close>

text \<open>
  Claim C10. One render, run on a store in which \<open>records\<close> is the array at
  \<open>recordsAddr\<close>, leaves every array that existed before as it was, the record array
  among them; the arrays it allocates hold \<open>filteredData\<close>, \<open>sortedData\<close> (the sort
  works on the copy, so the filtered array keeps its order) and the current page. Of the
  events, none but the three row buttons, which call \<open>handleStatusUpdate\<close>, replaces
  the record store.
\<close>

theorem render_frame:
  assumes "recordsAddr < nextAddr h" and "readArray recordsAddr h = records s"
  shows "(case render tza lc s recordsAddr h of
            ((filteredAddr, sortedAddr, currentAddr), h') \<Rightarrow>
              (\<forall>a < nextAddr h. arrays h' a = arrays h a)
              \<and> readArray recordsAddr h' = records s
              \<and> readArray filteredAddr h' = filteredData tza s
              \<and> readArray sortedAddr h' = sortedData tza lc s
              \<and> readArray currentAddr h' = currentRecords tza lc s)
         \<and> (\<forall>e. \<not> isRowButton e \<longrightarrow> records (handle tza lc s e) = records s)"
  using assms
  by (simp add: render_def Array_filter_st_def Array_spread_st_def Array_sort_st_def
      Array_slice_st_def alloc_def readArray_def filteredData_def sortedData_def
      currentRecords_def records_handle_view)

theorem render_frame_witness:
  "0 < nextAddr (sampleStore elevenRecords)
   \<and> readArray 0 (sampleStore elevenRecords) = records (initialState elevenRecords)
   \<and> readArray 0 (snd (render 0 codeUnitCompare (initialState elevenRecords) 0
         (sampleStore elevenRecords))) = elevenRecords
   \<and> fst (render 0 codeUnitCompare (initialState elevenRecords) 0 (sampleStore elevenRecords))
       = (1, 2, 3)
   \<and> records (handle 0 codeUnitCompare (initialState elevenRecords) NextClick) = elevenRecords"
  using render_frame [of 0 "sampleStore elevenRecords" "initialState elevenRecords" 0 codeUnitCompare]
  by (simp add: render_def Array_filter_st_def Array_spread_st_def Array_sort_st_def
      Array_slice_st_def alloc_def readArray_def sampleStore_def)

subsection \<open>Sorting by date\<close>






















subsection \<open>The filter stage\<close>

text \<open>
  Claim C1 at two concrete inputs, in a time zone five hours west of UTC. The bound
  \<^verbatim>\<open>new Date("2023-06-01")\<close> is midnight UTC, which is 31 May 19:00 local time, and
  \<^verbatim>\<open>setHours(0, 0, 0, 0)\<close> moves it to 31 May 00:00 local time. So a record dated
  31 May 2023 passes the filter from 1 June 2023, and a record dated 30 June 2023 fails
  the filter to 30 June 2023, against the contract.
\<close>

theorem date_bound_west_of_UTC:
  "filteredData (- 18000000)
     ((initialState [sampleRecord ''1'' ''John Smith'' ACTIVE ''31 May 2023''])\<lparr>dateFrom := ''2023-06-01''\<rparr>)
   = [sampleRecord ''1'' ''John Smith'' ACTIVE ''31 May 2023'']
   \<and> \<not> passes_spec (- 18000000)
        ((initialState [sampleRecord ''1'' ''John Smith'' ACTIVE ''31 May 2023''])\<lparr>dateFrom := ''2023-06-01''\<rparr>)
        (sampleRecord ''1'' ''John Smith'' ACTIVE ''31 May 2023'')
   \<and> filteredData (- 18000000)
     ((initialState [sampleRecord ''2'' ''Jane Brown'' ACTIVE ''30 Jun 2023''])\<lparr>dateTo := ''2023-06-30''\<rparr>)
   = []
   \<and> passes_spec (- 18000000)
        ((initialState [sampleRecord ''2'' ''Jane Brown'' ACTIVE ''30 Jun 2023''])\<lparr>dateTo := ''2023-06-30''\<rparr>)
        (sampleRecord ''2'' ''Jane Brown'' ACTIVE ''30 Jun 2023'')"
  by code_simp

text \<open>
  In a time zone at or east of UTC a date input value is a multiple of a day, and its
  local day is the chosen day.
\<close>

lemma Date_parse_multiple: "Date_parse v = Some t \<Longrightarrow> t mod msPerDay = 0"
  by (auto simp: Date_parse_def midnight_def MakeDay_def TimeClip_def
      split: if_splits option.splits)

lemma setHours_east:
  assumes "0 \<le> tza" "tza < msPerDay" "Date_parse v = Some t"
  shows "setHours tza 0 0 0 0 (Date_parse v) = startOfDay tza (inputDay v)"
    and "setHours tza 23 59 59 999 (Date_parse v) = endOfDay tza (inputDay v)"
proof -
  have "t mod msPerDay = 0" using assms(3) by (rule Date_parse_multiple)
  then have "msPerDay dvd t" by (simp add: dvd_eq_mod_eq_0)
  then have "(t + tza) div msPerDay = t div msPerDay + tza div msPerDay"
    by (rule div_plus_div_distrib_dvd_left)
  moreover have "tza div msPerDay = 0"
    using assms(1,2) by (simp add: div_pos_pos_trivial)
  ultimately have "(t + tza) div msPerDay = t div msPerDay" by simp
  then show "setHours tza 0 0 0 0 (Date_parse v) = startOfDay tza (inputDay v)"
    and "setHours tza 23 59 59 999 (Date_parse v) = endOfDay tza (inputDay v)"
    by (simp_all add: setHours_def startOfDay_def endOfDay_def inputDay_def assms(3))
qed

lemma setHours_east_invalid:
  assumes "Date_parse v = None"
  shows "setHours tza h m sec ms (Date_parse v) = None" "startOfDay tza (inputDay v) = None"
    "endOfDay tza (inputDay v) = None"
  by (simp_all add: setHours_def startOfDay_def endOfDay_def inputDay_def assms)

lemma bounds_east:
  assumes "0 \<le> tza" "tza < msPerDay"
  shows "setHours tza 0 0 0 0 (Date_parse v) = startOfDay tza (inputDay v)"
    and "setHours tza 23 59 59 999 (Date_parse v) = endOfDay tza (inputDay v)"
  using setHours_east [OF assms] setHours_east_invalid
  by (cases "Date_parse v"; simp)+

lemma passes_eq_spec_east:
  assumes "0 \<le> tza" "tza < msPerDay"
  shows "passes tza s r = passes_spec tza s r"
  by (auto simp: passes_def passes_spec_def dateMatch_def withinBounds_spec_def truthy_def
      includes_iff_sublist bounds_east [OF assms] Let_def)

text \<open>
  In a time zone at or east of UTC, and for bounds that are values of a date input with
  a year of four digits, the date bounds are the local start and end of the chosen days,
  and the filter stage is the contract: the subsequence of the passing records, in the
  order of the store.
\<close>

theorem filteredData_spec_east:
  assumes "0 \<le> tza" "tza < msPerDay"
    and "isInputDate (dateFrom s)" "isInputDate (dateTo s)"
  shows "filteredData tza s = filter (passes_spec tza s) (records s)
       \<and> subseq (filteredData tza s) (records s)"
  using passes_eq_spec_east [OF assms(1,2)] by (simp_all add: filteredData_def cong: filter_cong)

theorem filteredData_spec_east_witness:
  "(0::int) \<le> 0 \<and> (0::int) < msPerDay
   \<and> isInputDate (dateFrom ((initialState elevenRecords)\<lparr>dateFrom := ''2024-03-01''\<rparr>))
   \<and> isInputDate (dateTo ((initialState elevenRecords)\<lparr>dateFrom := ''2024-03-01''\<rparr>))
   \<and> filteredData 0 ((initialState elevenRecords)\<lparr>dateFrom := ''2024-03-01''\<rparr>)
      = filter (passes_spec 0 ((initialState elevenRecords)\<lparr>dateFrom := ''2024-03-01''\<rparr>))
          (records ((initialState elevenRecords)\<lparr>dateFrom := ''2024-03-01''\<rparr>))"
proof -
  have i: "isInputDate ''2024-03-01''" "isInputDate []" by code_simp+
  show ?thesis
    using filteredData_spec_east [of 0 "(initialState elevenRecords)\<lparr>dateFrom := ''2024-03-01''\<rparr>"] i
    by (simp add: msPerDay_def)
qed

subsection \<open>Dates that do not parse\<close>






subsection \<open>Aggregate percentages\<close>

text \<open>
  The rounding error of one double-precision operation is at most \<open>2^-53\<close> of the exact
  value.
\<close>

lemma roundHalfEven_error: "\<bar>of_int (roundHalfEven y) - y\<bar> \<le> 1 / 2"
proof -
  have "of_int \<lfloor>y\<rfloor> \<le> y" "y < of_int \<lfloor>y\<rfloor> + 1" by linarith+
  then show ?thesis by (auto simp: roundHalfEven_def Let_def abs_le_iff)
qed

lemma pow2_of_bitlen:
  assumes "0 < (a::int)"
  shows "(2::rat) powi (bitlen a - 1) \<le> of_int a" and "of_int a < (2::rat) powi (bitlen a)"
proof -
  from bitlen_bounds [OF assms]
  have 1: "2 ^ nat (bitlen a - 1) \<le> a" and 2: "a < 2 ^ nat (bitlen a)" by simp_all
  have l: "1 \<le> bitlen a" using assms by (simp add: bitlen_alt_def)
  have "(2::rat) powi (bitlen a - 1) = of_int (2 ^ nat (bitlen a - 1))"
    using l by (simp add: power_int_nonneg_exp)
  also have "\<dots> \<le> of_int a" using 1 by (simp only: of_int_le_iff)
  finally show "(2::rat) powi (bitlen a - 1) \<le> of_int a" .
  have "(of_int a :: rat) < of_int (2 ^ nat (bitlen a))" using 2 by (simp only: of_int_less_iff)
  also have "\<dots> = 2 powi (bitlen a)" using l by (simp add: power_int_nonneg_exp)
  finally show "of_int a < (2::rat) powi (bitlen a)" .
qed

lemma binaryExponent_bounds:
  fixes x :: rat
  assumes "0 < x"
  shows "2 powi (binaryExponent x) \<le> x" and "x < 2 powi (binaryExponent x + 1)"
proof -
  obtain a b where q: "quotient_of x = (a, b)" by force
  have b: "0 < b" using quotient_of_denom_pos [OF q] .
  have x: "x = of_int a / of_int b" using quotient_of_div [OF q] .
  have a: "0 < a" using assms x b by (simp add: zero_less_divide_iff)
  define e0 where "e0 = bitlen a - bitlen b"
  note A = pow2_of_bitlen [OF a] and B = pow2_of_bitlen [OF b]
  have bpos: "(0::rat) < of_int b" using b by simp
  have "x * of_int b = of_int a" using x bpos by simp
  have up: "x < 2 powi (e0 + 1)"
  proof -
    have "x * 2 powi (bitlen b - 1) \<le> x * of_int b"
      using B(1) assms by (simp add: mult_left_mono)
    also have "\<dots> < 2 powi (bitlen a)" using A(2) \<open>x * of_int b = of_int a\<close> by simp
    finally have "x * 2 powi (bitlen b - 1) < 2 powi (bitlen a)" .
    then have "x < 2 powi (bitlen a) / 2 powi (bitlen b - 1)"
      by (simp add: pos_less_divide_eq)
    also have "\<dots> = 2 powi (e0 + 1)"
      by (simp add: e0_def power_int_diff [symmetric] algebra_simps)
    finally show ?thesis .
  qed
  have lo: "2 powi (e0 - 1) < x"
  proof -
    have "2 powi (bitlen a - 1) \<le> x * of_int b"
      using A(1) \<open>x * of_int b = of_int a\<close> by simp
    also have "\<dots> < x * 2 powi (bitlen b)" using B(2) assms by (simp add: mult_strict_left_mono)
    finally have "2 powi (bitlen a - 1) / 2 powi (bitlen b) < x"
      by (simp add: pos_divide_less_eq)
    moreover have "(2::rat) powi (bitlen a - 1) / 2 powi (bitlen b) = 2 powi (e0 - 1)"
      by (simp add: e0_def power_int_diff [symmetric] algebra_simps)
    ultimately show ?thesis by simp
  qed
  have E: "binaryExponent x = (if 2 powi e0 \<le> x then e0 else e0 - 1)"
    by (simp add: binaryExponent_def q e0_def)
  show "2 powi (binaryExponent x) \<le> x" using lo by (simp add: E)
  show "x < 2 powi (binaryExponent x + 1)" using up by (simp add: E not_le)
qed


lemma fl_error:
  assumes "0 < x"
  shows "\<bar>fl x - x\<bar> \<le> x / 2 ^ 53"
proof -
  define e where "e = binaryExponent x - 52"
  define p :: rat where "p = 2 powi e"
  have p: "0 < p" by (simp add: p_def)
  have f: "fl x = of_int (roundHalfEven (x / p)) * p"
    using assms by (simp add: fl_def e_def p_def Let_def)
  have "fl x - x = (of_int (roundHalfEven (x / p)) - x / p) * p"
    using p by (simp add: f algebra_simps)
  then have "\<bar>fl x - x\<bar> = \<bar>of_int (roundHalfEven (x / p)) - x / p\<bar> * p"
    using p by (simp add: abs_mult)
  also have "\<dots> \<le> (1 / 2) * p"
    using roundHalfEven_error [of "x / p"] p by (intro mult_right_mono) simp_all
  also have "\<dots> = 2 powi (binaryExponent x) / 2 ^ 53"
  proof -
    have "(2::rat) powi (binaryExponent x) = 2 powi (e + 52)" by (simp add: e_def)
    also have "\<dots> = 2 powi e * 2 powi 52" by (rule power_int_add) simp
    finally show ?thesis by (simp add: p_def)
  qed
  also have "\<dots> \<le> x / 2 ^ 53"
    using binaryExponent_bounds(1) [OF assms] by (simp add: divide_right_mono)
  finally show ?thesis .
qed

lemma percentage_exact:
  assumes le: "cnt \<le> tot" and pos: "0 < tot" and small: "tot < 2 ^ 32"
    and notie: "\<not> 2 * tot dvd 200 * cnt + tot"
  shows "percentage cnt tot = Integer_text ((200 * int cnt + int tot) div (2 * int tot))"
proof (cases "cnt = 0")
  case True
  have "(200 * int cnt + int tot) div (2 * int tot) = 0"
    using True pos by (simp add: div_pos_pos_trivial)
  moreover have "\<lfloor>(1::rat) / 2\<rfloor> = 0" by (intro floor_unique) simp_all
  ultimately show ?thesis using True pos by (simp add: percentage_def fl_def toFixed0_def)
next
  case False
  define x :: rat where "x = rat_of_nat cnt / rat_of_nat tot"
  define y where "y = fl x"
  define z where "z = fl (y * 100)"
  define q :: rat where "q = 100 * x"
  define N where "N = 200 * int cnt + int tot"
  define D where "D = 2 * int tot"
  define n where "n = N div D"
  have tpos: "(0::rat) < rat_of_nat tot" using pos by simp
  have x0: "0 < x" using False pos by (simp add: x_def)
  have x1: "x \<le> 1" using le pos by (simp add: x_def)
  have ey: "\<bar>y - x\<bar> \<le> x / 2 ^ 53" unfolding y_def by (rule fl_error [OF x0])
  have y0: "0 < y"
  proof -
    have "x - x / 2 ^ 53 \<le> y" using ey by linarith
    moreover have "0 < x - x / 2 ^ 53" using x0 by (simp add: field_simps)
    ultimately show ?thesis by linarith
  qed
  have y2: "y \<le> 2"
  proof -
    have "y \<le> x + x / 2 ^ 53" using ey by linarith
    also have "\<dots> \<le> 1 + 1 / 2 ^ 53" using x1 by (simp add: add_mono divide_right_mono)
    also have "\<dots> \<le> 2" by simp
    finally show ?thesis .
  qed
  have ez: "\<bar>z - y * 100\<bar> \<le> (y * 100) / 2 ^ 53"
    unfolding z_def using y0 by (intro fl_error) simp
  have "z - q = (z - y * 100) + 100 * (y - x)" by (simp add: q_def algebra_simps)
  then have "\<bar>z - q\<bar> \<le> \<bar>z - y * 100\<bar> + \<bar>100 * (y - x)\<bar>"
    by (simp only: abs_triangle_ineq)
  also have "\<dots> = \<bar>z - y * 100\<bar> + 100 * \<bar>y - x\<bar>" by (simp only: abs_mult abs_numeral)
  also have "\<dots> \<le> (y * 100) / 2 ^ 53 + 100 * (x / 2 ^ 53)"
    using ez ey by (intro add_mono mult_left_mono) simp_all
  also have "\<dots> \<le> 300 / 2 ^ 53"
    using y2 x1 by (simp add: field_simps)
  finally have err: "\<bar>z - q\<bar> \<le> 300 / 2 ^ 53" .
  have Dpos: "0 < D" using pos by (simp add: D_def)
  have Dsmall: "D < 2 ^ 33" using small by (simp add: D_def)
  have qN: "q + 1 / 2 = of_int N / of_int D"
    using pos by (simp add: q_def x_def N_def D_def field_simps)
  have "N mod D \<noteq> 0"
  proof
    assume "N mod D = 0"
    then have "D dvd N" by (simp add: dvd_eq_mod_eq_0)
    then have "int (2 * tot) dvd int (200 * cnt + tot)" by (simp add: D_def N_def)
    then show False using notie by (simp only: int_dvd_int_iff)
  qed
  then have m1: "1 \<le> N mod D" and m2: "N mod D \<le> D - 1"
    using Dpos pos_mod_sign [of D N] pos_mod_bound [of D N] by linarith+
  have N: "N = n * D + N mod D" by (simp add: n_def)
  have DD: "(0::rat) < of_int D" using Dpos by simp
  have gap: "(1::rat) / of_int D > 300 / 2 ^ 53"
  proof -
    have "(of_int D :: rat) < 2 ^ 33" using Dsmall by (metis of_int_less_iff of_int_numeral of_int_power)
    then have "(300 :: rat) * of_int D < 300 * 2 ^ 33" by simp
    also have "\<dots> < 2 ^ 53" by simp
    finally show ?thesis using DD by (simp add: field_simps)
  qed
  have lo: "of_int n + 1 / of_int D \<le> q + 1 / 2"
  proof -
    have "of_int n * of_int D + 1 \<le> (of_int N :: rat)"
      using m1 N by (metis (no_types, opaque_lifting) add_left_mono of_int_1 of_int_add of_int_le_iff of_int_mult)
    then have "(of_int n * of_int D + 1) / of_int D \<le> (of_int N :: rat) / of_int D"
      using DD by (intro divide_right_mono) simp_all
    moreover have "(of_int n * of_int D + 1) / of_int D = of_int n + 1 / (of_int D :: rat)"
      using DD by (simp add: field_simps)
    ultimately show ?thesis by (simp add: qN)
  qed
  have hi: "q + 1 / 2 \<le> of_int n + 1 - 1 / of_int D"
  proof -
    have "(of_int N :: rat) \<le> of_int n * of_int D + of_int D - 1"
    proof -
      have "N \<le> n * D + D - 1" using m2 N by linarith
      then have "(of_int N :: rat) \<le> of_int (n * D + D - 1)" by (simp only: of_int_le_iff)
      then show ?thesis by simp
    qed
    then have "(of_int N :: rat) / of_int D \<le> (of_int n * of_int D + of_int D - 1) / of_int D"
      using DD by (intro divide_right_mono) simp_all
    moreover have "(of_int n * of_int D + of_int D - 1) / of_int D = of_int n + 1 - 1 / (of_int D :: rat)"
      using DD by (simp add: field_simps)
    ultimately show ?thesis by (simp add: qN)
  qed
  define g :: rat where "g = 1 / of_int D"
  define dl :: rat where "dl = 300 / 2 ^ 53"
  have "\<bar>z - q\<bar> \<le> dl" using err by (simp only: dl_def)
  then have z1: "q - dl \<le> z" and z2: "z \<le> q + dl" by (simp_all only: abs_le_iff) linarith+
  have g1: "dl < g" using gap by (simp only: dl_def g_def)
  have g2: "of_int n + g \<le> q + 1 / 2" using lo by (simp only: g_def)
  have g3: "q + 1 / 2 \<le> of_int n + 1 - g" using hi by (simp only: g_def)
  have "of_int n \<le> z + 1 / 2" "z + 1 / 2 < of_int n + 1"
    using z1 z2 g1 g2 g3 by linarith+
  then have "\<lfloor>z + 1 / 2\<rfloor> = n" by (intro floor_unique) simp_all
  then show ?thesis
    using pos by (simp add: percentage_def toFixed0_def z_def y_def x_def n_def N_def D_def)
qed

lemma round_half_up_div:
  assumes "0 < tot"
  shows "\<lfloor>rat_of_nat cnt / rat_of_nat tot * 100 + 1 / 2\<rfloor> = (200 * int cnt + int tot) div (2 * int tot)"
proof -
  have "rat_of_nat cnt / rat_of_nat tot * 100 + 1 / 2
        = of_int (200 * int cnt + int tot) / of_int (2 * int tot)"
    using assms by (simp add: field_simps)
  then show ?thesis by (simp only: floor_divide_of_int_eq)
qed

text \<open>
  Claim C8, as amended. For an empty record store both percentages are \<open>NaN\<close>. For a
  store that is not empty (and has fewer than \<open>2^32\<close> records, as every array has) a
  percentage is \<open>count / total * 100\<close> rounded to the nearest integer, provided that
  value does not lie exactly halfway between two integers.
\<close>

theorem percentages_rounded:
  "(records s = [] \<longrightarrow> blockedPercentage s = NaN_text \<and> inactivePercentage s = NaN_text)
   \<and> (records s \<noteq> [] \<and> length (records s) < 2 ^ 32 \<longrightarrow>
        (\<not> 2 * totalUsers s dvd 200 * blockedCount s + totalUsers s \<longrightarrow>
           blockedPercentage s
           = Integer_text \<lfloor>rat_of_nat (blockedCount s) / rat_of_nat (totalUsers s) * 100 + 1 / 2\<rfloor>)
        \<and> (\<not> 2 * totalUsers s dvd 200 * inactiveCount s + totalUsers s \<longrightarrow>
           inactivePercentage s
           = Integer_text \<lfloor>rat_of_nat (inactiveCount s) / rat_of_nat (totalUsers s) * 100 + 1 / 2\<rfloor>))"
proof (intro conjI impI)
  assume "records s = []"
  then show "blockedPercentage s = NaN_text" "inactivePercentage s = NaN_text"
    by (simp_all add: blockedPercentage_def inactivePercentage_def percentage_def
        blockedCount_def inactiveCount_def totalUsers_def)
next
  assume a: "records s \<noteq> [] \<and> length (records s) < 2 ^ 32"
  then have pos: "0 < totalUsers s" and small: "totalUsers s < 2 ^ 32"
    by (simp_all add: totalUsers_def)
  {
    assume "\<not> 2 * totalUsers s dvd 200 * blockedCount s + totalUsers s"
    moreover have "blockedCount s \<le> totalUsers s"
      by (simp add: blockedCount_def totalUsers_def)
    ultimately show "blockedPercentage s
           = Integer_text \<lfloor>rat_of_nat (blockedCount s) / rat_of_nat (totalUsers s) * 100 + 1 / 2\<rfloor>"
      using percentage_exact [OF _ pos small, of "blockedCount s"] round_half_up_div [OF pos]
      by (simp add: blockedPercentage_def)
  }
  {
    assume "\<not> 2 * totalUsers s dvd 200 * inactiveCount s + totalUsers s"
    moreover have "inactiveCount s \<le> totalUsers s"
      by (simp add: inactiveCount_def totalUsers_def)
    ultimately show "inactivePercentage s
           = Integer_text \<lfloor>rat_of_nat (inactiveCount s) / rat_of_nat (totalUsers s) * 100 + 1 / 2\<rfloor>"
      using percentage_exact [OF _ pos small, of "inactiveCount s"] round_half_up_div [OF pos]
      by (simp add: inactivePercentage_def)
  }
qed

theorem percentages_rounded_witness:
  "records (handleStatusUpdate ''5'' BLOCKED (initialState elevenRecords)) \<noteq> []
   \<and> length (records (handleStatusUpdate ''5'' BLOCKED (initialState elevenRecords))) < 2 ^ 32
   \<and> \<not> 2 * totalUsers (handleStatusUpdate ''5'' BLOCKED (initialState elevenRecords))
        dvd 200 * blockedCount (handleStatusUpdate ''5'' BLOCKED (initialState elevenRecords))
            + totalUsers (handleStatusUpdate ''5'' BLOCKED (initialState elevenRecords))
   \<and> blockedCount (handleStatusUpdate ''5'' BLOCKED (initialState elevenRecords)) = 1
   \<and> totalUsers (handleStatusUpdate ''5'' BLOCKED (initialState elevenRecords)) = 11
   \<and> blockedPercentage (handleStatusUpdate ''5'' BLOCKED (initialState elevenRecords)) = Integer_text 9"
proof -
  let ?s = "handleStatusUpdate ''5'' BLOCKED (initialState elevenRecords)"
  have b: "blockedCount ?s = 1" and t: "totalUsers ?s = 11"
    by (simp_all add: blockedCount_def totalUsers_def handleStatusUpdate_def updateStatus_def
        elevenRecords_def activeRecord_def sampleRecord_def)
  have r: "records ?s \<noteq> []" "length (records ?s) < 2 ^ 32"
    by (simp_all add: handleStatusUpdate_def elevenRecords_def)
  have n: "\<not> 2 * totalUsers ?s dvd 200 * blockedCount ?s + totalUsers ?s"
    by (simp add: b t)
  have "\<lfloor>rat_of_nat 1 / rat_of_nat 11 * 100 + 1 / 2\<rfloor> = 9"
    using round_half_up_div [of 11 1] by simp
  then have "blockedPercentage ?s = Integer_text 9"
    using percentages_rounded [of ?s] r n by (simp add: b t)
  then show ?thesis using r n b t by simp
qed

text \<open>
  Claim C8 as stated fails on the empty store: the division is not guarded, and both
  percentages are \<open>NaN\<close>, not 0.
\<close>

theorem percentages_empty_store_counterexample:
  "blockedPercentage (initialState []) = NaN_text
   \<and> inactivePercentage (initialState []) = NaN_text"
  by (simp add: blockedPercentage_def inactivePercentage_def percentage_def
      blockedCount_def inactiveCount_def totalUsers_def)

text \<open>
  At a tie the double product can fall below the half: 23 of 40 is 57.5 percent, the
  computed product is below 57.5, and the percentage shown is 57.
\<close>

lemma percentage_tie_lost:
  "percentage 23 40 = Integer_text 57 \<and> \<lfloor>rat_of_nat 23 / rat_of_nat 40 * 100 + 1 / 2\<rfloor> = 58"
proof -
  have "percentage 23 40 = Integer_text 57" by code_simp
  moreover have "\<lfloor>rat_of_nat 23 / rat_of_nat 40 * 100 + 1 / 2\<rfloor> = 58"
    using round_half_up_div [of 40 23] by simp
  ultimately show ?thesis by simp
qed

subsection \<open>Further properties of the stages\<close>

text \<open>
  With the status filter ALL, an empty search and no date bound the filter stage returns
  the record store as it is.
\<close>

theorem filter_pass_through:
  assumes "filterStatus s = FilterAll" "searchName s = []" "dateFrom s = []" "dateTo s = []"
  shows "filteredData tza s = records s"
  using assms
  by (simp add: filteredData_def passes_def dateMatch_def truthy_def toLowerCase_def includes_str_Nil)

theorem filter_pass_through_witness:
  "filterStatus (handleSort SortName (initialState elevenRecords)) = FilterAll
   \<and> searchName (handleSort SortName (initialState elevenRecords)) = []
   \<and> dateFrom (handleSort SortName (initialState elevenRecords)) = []
   \<and> dateTo (handleSort SortName (initialState elevenRecords)) = []
   \<and> filteredData 0 (handleSort SortName (initialState elevenRecords)) = elevenRecords"
  using filter_pass_through [of "handleSort SortName (initialState elevenRecords)" 0]
  by (simp add: handleSort_def)

text \<open>
  The current page is the slice of the sorted sequence from index
  \<open>(currentPage - 1) * 10\<close>, at most ten records long.
\<close>

theorem page_slice:
  assumes "1 \<le> currentPage s"
  shows "currentRecords tza lc s
         = take recordsPerPage
             (drop (nat (currentPage s - 1) * recordsPerPage) (sortedData tza lc s))"
proof -
  define xs where "xs = sortedData tza lc s"
  define k where "k = nat (currentPage s - 1) * 10"
  have st: "startIndex s = int k" using assms by (simp add: startIndex_def recordsPerPage_def k_def)
  have "slice xs (int k) (int k + 10) = take 10 (drop k xs)"
  proof (cases "k \<le> length xs")
    case True
    then have "min (int k) (int (length xs)) = int k" by simp
    moreover have "nat (min (int k + 10) (int (length xs)) - int k) = min 10 (length xs - k)"
      using True by (auto simp: min_def)
    ultimately show ?thesis by (simp add: slice_def Let_def min_def)
  next
    case False
    then show ?thesis by (simp add: slice_def Let_def min_def)
  qed
  then show ?thesis
    by (simp add: currentRecords_def endIndex_def st recordsPerPage_def xs_def k_def)
qed

theorem page_slice_witness:
  "1 \<le> currentPage ((initialState elevenRecords)\<lparr>currentPage := 2\<rparr>)
   \<and> currentRecords 0 codeUnitCompare ((initialState elevenRecords)\<lparr>currentPage := 2\<rparr>)
       = [activeRecord ''11'']"
  using page_slice [of "(initialState elevenRecords)\<lparr>currentPage := 2\<rparr>" 0 codeUnitCompare]
  by (simp add: sortedData_unsorted filteredData_initialState recordsPerPage_def elevenRecords_def)

text \<open>
  A click on the header of the active sort field reverses the direction; a click on
  another header selects that field, ascending.
\<close>

theorem handleSort_toggle:
  "(sortField s = Some field \<longrightarrow>
      sortField (handleSort field s) = Some field
      \<and> sortDirection (handleSort field s) = (if sortDirection s = Asc then Desc else Asc))
   \<and> (sortField s \<noteq> Some field \<longrightarrow>
      sortField (handleSort field s) = Some field \<and> sortDirection (handleSort field s) = Asc)"
  by (simp add: handleSort_def)

theorem handleSort_toggle_witness:
  "sortField (initialState elevenRecords) \<noteq> Some SortDate
   \<and> sortDirection (handleSort SortDate (initialState elevenRecords)) = Asc
   \<and> sortField (handleSort SortDate (initialState elevenRecords)) = Some SortDate
   \<and> sortDirection (handleSort SortDate (handleSort SortDate (initialState elevenRecords))) = Desc"
  using handleSort_toggle [of "initialState elevenRecords" SortDate]
    handleSort_toggle [of "handleSort SortDate (initialState elevenRecords)" SortDate]
  by simp

end
